theory Spec2Isabelle
  imports Main "HOL-Library.Multiset"
begin

section \<open>The configured crawler wrapper: \<open>CustomCrawler.__init__\<close>\<close>

text \<open>
  The repository is one constructor, \<open>CustomCrawler.__init__\<close> in
  \<open>helper_functions/crawler.py\<close>. It reads four facts about the running process,
  extends a list of browser flags, registers the deduplicated flags on a Selenium
  \<open>Options\<close> object, starts Chrome and stores ten configuration fields.

  Everything the constructor reads from its surroundings is a field of the record
  \<open>process\<close>; the list objects the caller and the constructor share live in an explicit
  store, since \<open>list.append\<close> mutates the object the caller still holds.
\<close>

subsection \<open>Errors\<close>

text \<open>
  Two exceptions can leave the constructor: \<open>AttributeError\<close>, when \<open>os.geteuid\<close> is
  looked up on a Python whose \<open>os\<close> module has none, and whatever \<open>webdriver.Chrome\<close>
  raises (a \<open>WebDriverException\<close> with its message).
\<close>

datatype error = AttributeError | WebDriverException string

subsection \<open>The store of list objects\<close>

text \<open>
  A reference is an index into the store; every cell holds one Python list of strings.
  A new list takes the next free index. \<open>list_append\<close> is \<open>list.append\<close>: it changes
  the cell and nothing else.
\<close>

type_synonym ref = nat
type_synonym heap = "string list list"

definition new_list :: "heap \<Rightarrow> string list \<Rightarrow> heap \<times> ref" where
  "new_list h xs = (h @ [xs], length h)"

definition list_append :: "heap \<Rightarrow> ref \<Rightarrow> string \<Rightarrow> heap" where
  "list_append h r x = h[r := h ! r @ [x]]"

subsection \<open>The \<open>Options\<close> object of the driver library\<close>

text \<open>
  Modelled from the spec: Selenium's \<open>Options\<close> class is not part of the repository.
  The spec says that each flag of the deduplicated list is registered as a browser
  launch argument: a fresh \<open>Options()\<close> has no argument and \<open>add_argument\<close> records the
  flag it is given.
\<close>

record options =
  arguments :: "string list"

definition Options :: options where
  "Options = \<lparr>arguments = []\<rparr>"

definition add_argument :: "options \<Rightarrow> string \<Rightarrow> options" where
  "add_argument opts a = opts\<lparr>arguments := arguments opts @ [a]\<rparr>"

subsection \<open>The running process\<close>

text \<open>
  \<open>sys_modules\<close> are the keys of \<open>sys.modules\<close>, \<open>os_environ\<close> is \<open>os.environ\<close>,
  \<open>sys_platform\<close> is \<open>sys.platform\<close>. \<open>os_geteuid\<close> is \<open>None\<close> where the \<open>os\<close> module
  has no \<open>geteuid\<close> (calling it raises \<open>AttributeError\<close>), otherwise the effective user
  id it returns. \<open>set_order\<close> is the order in which this interpreter iterates over
  \<open>set(xs)\<close>; \<open>binary_path\<close> is the constant of \<open>chromedriver_py\<close>; \<open>Chrome\<close> is
  \<open>webdriver.Chrome\<close>, given the driver binary and the \<open>Options\<close> object, returning
  the session or raising.
\<close>

record 'd process =
  sys_modules :: "string set"
  os_environ :: "string \<rightharpoonup> string"
  sys_platform :: string
  os_geteuid :: "nat option"
  set_order :: "string list \<Rightarrow> string list"
  binary_path :: string
  Chrome :: "string \<Rightarrow> options \<Rightarrow> error + 'd"

text \<open>
  Python promises of \<open>set(xs)\<close> only that iterating over it yields every element of
  \<open>xs\<close> once, in some order.
\<close>

definition python_set :: "(string list \<Rightarrow> string list) \<Rightarrow> bool" where
  "python_set order \<longleftrightarrow> (\<forall>xs. distinct (order xs) \<and> set (order xs) = set xs)"

subsection \<open>Environment signals (lines 87 to 90)\<close>

record signals =
  IN_COLAB :: bool
  IN_AZUREML :: bool
  IN_WINDOWS :: bool
  IS_ROOT :: bool

text \<open>
  \<open>IS_ROOT = not IN_WINDOWS and os.geteuid() == 0\<close>: the right operand of \<open>and\<close> is
  evaluated only when the left one is true.
\<close>

definition detect_environment :: "'d process \<Rightarrow> error + signals" where
  "detect_environment p =
    (let in_colab = (''google.colab'' \<in> sys_modules p);
         in_azureml = (os_environ p ''AZUREML_ENVIRONMENT_IMAGE'' = Some ''True'');
         in_windows = (sys_platform p \<in> set [''win32'', ''cygwin''])
     in if \<not> in_windows then
          (case os_geteuid p of
             None \<Rightarrow> Inl AttributeError
           | Some uid \<Rightarrow>
               Inr \<lparr>IN_COLAB = in_colab, IN_AZUREML = in_azureml,
                    IN_WINDOWS = in_windows, IS_ROOT = (uid = 0)\<rparr>)
        else
          Inr \<lparr>IN_COLAB = in_colab, IN_AZUREML = in_azureml,
               IN_WINDOWS = in_windows, IS_ROOT = False\<rparr>)"

subsection \<open>The flag list (lines 92 to 100)\<close>

definition default_webdriver_options :: "string list" where
  "default_webdriver_options =
    [''--headless'', ''--disable-gpu'', ''--disable-dev-shm-usage'', ''--single-process'']"

text \<open>
  \<open>webdriver_options\<close> is \<open>None\<close> or a reference to the caller's list. The function
  returns the store after the appends and the reference the local variable
  \<open>webdriver_options\<close> holds at line 101.
\<close>

definition extend_webdriver_options :: "signals \<Rightarrow> heap \<Rightarrow> ref option \<Rightarrow> heap \<times> ref" where
  "extend_webdriver_options s h webdriver_options =
    (let (h1, r) = (case webdriver_options of
                      None \<Rightarrow> new_list h default_webdriver_options
                    | Some r \<Rightarrow> (h, r));
         h2 = list_append h1 r ''--headless'';
         h3 = (if IS_ROOT s \<or> IN_WINDOWS s \<or> IN_COLAB s
               then list_append h2 r ''--no-sandbox'' else h2);
         h4 = (if IS_ROOT s \<or> IN_WINDOWS s
               then list_append h3 r ''--remote-debugging-port=9222'' else h3);
         h5 = (if IN_COLAB s \<or> IN_AZUREML s
               then list_append h4 r ''--disable-dev-shm-usage'' else h4)
     in (h5, r))"

subsection \<open>Registering the flags (lines 102 to 104)\<close>

text \<open>The loop \<open>for option in set(webdriver_options): options.add_argument(option)\<close>.\<close>

definition register_options :: "(string list \<Rightarrow> string list) \<Rightarrow> string list \<Rightarrow> options" where
  "register_options order xs = foldl add_argument Options (order xs)"

text \<open>
  Lines 92 to 104 together: the store after the appends and the \<open>Options\<close> object handed
  to \<open>webdriver.Chrome\<close>.
\<close>

definition launch_options ::
  "signals \<Rightarrow> (string list \<Rightarrow> string list) \<Rightarrow> heap \<Rightarrow> ref option \<Rightarrow> heap \<times> options" where
  "launch_options s order h webdriver_options =
    (let (h', r) = extend_webdriver_options s h webdriver_options
     in (h', register_options order (h' ! r)))"

subsection \<open>The constructor (lines 27 to 116)\<close>

text \<open>
  A keyword parameter is either omitted by the caller, and then bound to the default of
  the signature, or passed. The parameters annotated \<open>Optional\<close> take \<open>None\<close> as a
  value, which is the inner \<open>option\<close>. A parameter that takes a list (\<open>urls\<close>,
  \<open>filter_urls\<close>, \<open>id_hash_keys\<close>, \<open>webdriver_options\<close>) receives a reference into the
  store, so one list object may be passed for several of them.
\<close>

datatype 'a arg = Omitted | Passed 'a

fun or_default :: "'a arg \<Rightarrow> 'a \<Rightarrow> 'a" where
  "or_default Omitted d = d"
| "or_default (Passed v) d = v"

datatype path_like = PathStr string | PathObj string

record call =
  arg_urls :: "ref option arg"
  arg_crawler_depth :: "int arg"
  arg_filter_urls :: "ref option arg"
  arg_id_hash_keys :: "ref option arg"
  arg_extract_hidden_text :: "bool arg"
  arg_loading_wait_time :: "int option arg"
  arg_output_dir :: "path_like option arg"
  arg_overwrite_existing_files :: "bool arg"
  arg_file_path_meta_field_name :: "string option arg"
  arg_crawler_naming_function :: "(string \<Rightarrow> string \<Rightarrow> string) option arg"
  arg_webdriver_options :: "ref option arg"

text \<open>
  The object under construction. An attribute is \<open>Unset\<close> until an assignment
  \<open>self.name = value\<close> stores a value in it; the attributes are listed in the order
  lines 106 to 116 assign them. A list-valued attribute holds the reference that was
  assigned, not a copy of the list.
\<close>

datatype 'a attribute = Unset | Stored 'a

record 'd CustomCrawler =
  driver :: "'d attribute"
  urls :: "ref option attribute"
  crawler_depth :: "int attribute"
  filter_urls :: "ref option attribute"
  overwrite_existing_files :: "bool attribute"
  id_hash_keys :: "ref option attribute"
  extract_hidden_text :: "bool attribute"
  loading_wait_time :: "int option attribute"
  crawler_naming_function :: "(string \<Rightarrow> string \<Rightarrow> string) option attribute"
  output_dir :: "path_like option attribute"
  file_path_meta_field_name :: "string option attribute"

text \<open>
  The object \<open>__init__\<close> receives as \<open>self\<close>: the base class initialiser is not called
  (line 85 is a comment), so no attribute is set yet.
\<close>

definition new_object :: "'d CustomCrawler" where
  "new_object =
    \<lparr>driver = Unset, urls = Unset, crawler_depth = Unset, filter_urls = Unset,
     overwrite_existing_files = Unset, id_hash_keys = Unset, extract_hidden_text = Unset,
     loading_wait_time = Unset, crawler_naming_function = Unset, output_dir = Unset,
     file_path_meta_field_name = Unset\<rparr>"

text \<open>
  \<open>init_self\<close> is the body of \<open>__init__\<close> run on \<open>self\<close>: it returns the store and the
  object as it leaves them, and the exception that ended it, if one did. The assignment
  \<open>self.driver = webdriver.Chrome(...)\<close> is the first one to \<open>self\<close>; the appends to the
  flag list come before it.
\<close>

definition init_self ::
  "'d process \<Rightarrow> heap \<Rightarrow> 'd CustomCrawler \<Rightarrow> call
    \<Rightarrow> heap \<times> 'd CustomCrawler \<times> error option" where
  "init_self p h self c =
    (case detect_environment p of
       Inl e \<Rightarrow> (h, self, Some e)
     | Inr s \<Rightarrow>
         (let (h', opts) =
                launch_options s (set_order p) h (or_default (arg_webdriver_options c) None)
          in case Chrome p (binary_path p) opts of
               Inl e \<Rightarrow> (h', self, Some e)
             | Inr d \<Rightarrow>
                 (h',
                  self\<lparr>driver := Stored d,
                    urls := Stored (or_default (arg_urls c) None),
                    crawler_depth := Stored (or_default (arg_crawler_depth c) 1),
                    filter_urls := Stored (or_default (arg_filter_urls c) None),
                    overwrite_existing_files :=
                      Stored (or_default (arg_overwrite_existing_files c) True),
                    id_hash_keys := Stored (or_default (arg_id_hash_keys c) None),
                    extract_hidden_text := Stored (or_default (arg_extract_hidden_text c) True),
                    loading_wait_time := Stored (or_default (arg_loading_wait_time c) None),
                    crawler_naming_function :=
                      Stored (or_default (arg_crawler_naming_function c) None),
                    output_dir := Stored (or_default (arg_output_dir c) None),
                    file_path_meta_field_name :=
                      Stored (or_default (arg_file_path_meta_field_name c) None)\<rparr>,
                  None)))"

text \<open>
  \<open>init\<close> is the call \<open>CustomCrawler(...)\<close> as the caller sees it: \<open>__init__\<close> runs on a
  new object, and the caller receives the object when \<open>__init__\<close> returns, the exception
  when it raises. The store is the caller's in both cases.
\<close>

definition init :: "'d process \<Rightarrow> heap \<Rightarrow> call \<Rightarrow> heap \<times> (error + 'd CustomCrawler)" where
  "init p h c =
    (case init_self p h new_object c of
       (h', self, exn) \<Rightarrow>
         (case exn of Some e \<Rightarrow> (h', Inl e) | None \<Rightarrow> (h', Inr self)))"

subsection \<open>The append rules as the specification words them\<close>

text \<open>
  The specification describes steps 2 to 6 of the algorithm as rules that append a flag
  when a condition holds, and says that their order does not matter for the registered
  set. \<open>spec_append_rules\<close> lists them in the order of the specification, each as a
  condition and the flag it appends; step 2 is read as four appends to an empty list that
  happen when the caller supplied none. \<open>apply_rules\<close> runs a list of rules in the order
  given, and \<open>supplied_options\<close> is the list they start from.
\<close>

type_synonym rule = "bool \<times> string"

definition spec_append_rules :: "signals \<Rightarrow> bool \<Rightarrow> rule list" where
  "spec_append_rules s none_supplied =
    [(none_supplied, ''--headless''),
     (none_supplied, ''--disable-gpu''),
     (none_supplied, ''--disable-dev-shm-usage''),
     (none_supplied, ''--single-process''),
     (True, ''--headless''),
     (IS_ROOT s \<or> IN_WINDOWS s \<or> IN_COLAB s, ''--no-sandbox''),
     (IS_ROOT s \<or> IN_WINDOWS s, ''--remote-debugging-port=9222''),
     (IN_COLAB s \<or> IN_AZUREML s, ''--disable-dev-shm-usage'')]"

fun apply_rules :: "rule list \<Rightarrow> string list \<Rightarrow> string list" where
  "apply_rules [] xs = xs"
| "apply_rules ((cond, flag) # rs) xs = apply_rules rs (if cond then xs @ [flag] else xs)"

definition supplied_options :: "heap \<Rightarrow> ref option \<Rightarrow> string list" where
  "supplied_options h webdriver_options =
    (case webdriver_options of None \<Rightarrow> [] | Some r \<Rightarrow> h ! r)"

subsection \<open>Facts about the store and the flag list\<close>

text \<open>
  A call is well formed when the reference it passes, if any, points into the store.
\<close>

definition valid_ref :: "heap \<Rightarrow> ref option \<Rightarrow> bool" where
  "valid_ref h webdriver_options \<longleftrightarrow>
    (case webdriver_options of None \<Rightarrow> True | Some r \<Rightarrow> r < length h)"

text \<open>The list the constructor starts from, and the flags lines 94 to 100 append to it.\<close>

definition base_options :: "heap \<Rightarrow> ref option \<Rightarrow> string list" where
  "base_options h webdriver_options =
    (case webdriver_options of None \<Rightarrow> default_webdriver_options | Some r \<Rightarrow> h ! r)"

definition appended_flags :: "signals \<Rightarrow> string list" where
  "appended_flags s =
    [''--headless'']
    @ (if IS_ROOT s \<or> IN_WINDOWS s \<or> IN_COLAB s then [''--no-sandbox''] else [])
    @ (if IS_ROOT s \<or> IN_WINDOWS s then [''--remote-debugging-port=9222''] else [])
    @ (if IN_COLAB s \<or> IN_AZUREML s then [''--disable-dev-shm-usage''] else [])"

lemma list_append_length [simp]: "length (list_append h r x) = length h"
  by (simp add: list_append_def)

lemma list_append_same [simp]: "r < length h \<Longrightarrow> list_append h r x ! r = h ! r @ [x]"
  by (simp add: list_append_def)

lemma list_append_other [simp]: "q \<noteq> r \<Longrightarrow> list_append h r x ! q = h ! q"
  by (simp add: list_append_def)

lemma extend_supplied:
  assumes "r < length h"
  shows "extend_webdriver_options s h (Some r) = (h', r') \<Longrightarrow>
         r' = r \<and> length h' = length h \<and> h' ! r = h ! r @ appended_flags s
         \<and> (\<forall>q. q \<noteq> r \<longrightarrow> h' ! q = h ! q)"
  using assms
  by (auto simp add: extend_webdriver_options_def appended_flags_def Let_def)

lemma extend_default:
  "extend_webdriver_options s h None = (h', r') \<Longrightarrow>
     r' = length h \<and> length h' = Suc (length h)
     \<and> h' ! r' = default_webdriver_options @ appended_flags s
     \<and> (\<forall>q < length h. h' ! q = h ! q)"
  by (auto simp add: extend_webdriver_options_def appended_flags_def Let_def new_list_def
      nth_append)


lemma extend_contents:
  assumes "valid_ref h wo" and "extend_webdriver_options s h wo = (h', r)"
  shows "h' ! r = base_options h wo @ appended_flags s"
proof (cases wo)
  case None
  with assms(2) have "h' ! r = default_webdriver_options @ appended_flags s"
    using extend_default [of s h h' r] by blast
  with None show ?thesis
    by (simp add: base_options_def)
next
  case (Some q)
  with assms have "q < length h" and "extend_webdriver_options s h (Some q) = (h', r)"
    by (simp_all add: valid_ref_def)
  then have "r = q \<and> h' ! q = h ! q @ appended_flags s"
    using extend_supplied [of q h s h' r] by blast
  with Some show ?thesis
    by (simp add: base_options_def)
qed

lemma register_options_arguments: "arguments (register_options order xs) = order xs"
proof -
  have "arguments (foldl add_argument opts ys) = arguments opts @ ys" for opts ys
    by (induction ys arbitrary: opts) (simp_all add: add_argument_def)
  then show ?thesis
    by (simp add: register_options_def Options_def)
qed

lemma launch_options_set:
  assumes "python_set order" and "valid_ref h wo"
  shows "set (arguments (snd (launch_options s order h wo)))
         = set (base_options h wo) \<union> set (appended_flags s)"
proof -
  obtain h' r where e: "extend_webdriver_options s h wo = (h', r)"
    by (cases "extend_webdriver_options s h wo")
  from extend_contents [OF assms(2) e] assms(1) show ?thesis
    by (simp add: launch_options_def e register_options_arguments python_set_def)
qed

lemma python_set_remdups: "python_set remdups"
  by (simp add: python_set_def)

lemma launch_options_arguments:
  assumes "valid_ref h wo"
  shows "snd (launch_options s order h wo)
         = register_options order (base_options h wo @ appended_flags s)"
proof -
  obtain h' r where e: "extend_webdriver_options s h wo = (h', r)"
    by (cases "extend_webdriver_options s h wo")
  from extend_contents [OF assms e] show ?thesis
    by (simp add: launch_options_def e)
qed

lemma apply_rules_set: "set (apply_rules rs xs) = set xs \<union> {f. (True, f) \<in> set rs}"
  by (induction rs xs rule: apply_rules.induct) auto

text \<open>
  Run in the order of the specification, the rules build the list the source builds.
\<close>

lemma spec_rules_refine:
  "apply_rules (spec_append_rules s (wo = None)) (supplied_options h wo)
     = base_options h wo @ appended_flags s"
  by (cases wo)
    (simp_all add: spec_append_rules_def supplied_options_def base_options_def
      default_webdriver_options_def appended_flags_def)

section \<open>Properties\<close>

text \<open>
  C1. Whatever list the caller supplies, and also when none is supplied, and for every
  value of the four environment signals, the arguments registered on the \<open>Options\<close>
  object that is handed to the browser contain \<open>--headless\<close>.
\<close>

theorem headless_always_registered:
  assumes "python_set order" and "valid_ref h webdriver_options"
  shows "''--headless'' \<in> set (arguments (snd (launch_options s order h webdriver_options)))"
  using launch_options_set [OF assms, of s] by (simp add: appended_flags_def)

theorem headless_always_registered_witness:
  "python_set remdups \<and> valid_ref [[''--no-sandbox'']] (Some 0)
   \<and> ''--headless'' \<in> set (arguments (snd (launch_options
        \<lparr>IN_COLAB = False, IN_AZUREML = False, IN_WINDOWS = False, IS_ROOT = False\<rparr>
        remdups [[''--no-sandbox'']] (Some 0))))"
  using headless_always_registered [of remdups "[[''--no-sandbox'']]" "Some 0"
      "\<lparr>IN_COLAB = False, IN_AZUREML = False, IN_WINDOWS = False, IS_ROOT = False\<rparr>"]
  by (simp add: python_set_remdups valid_ref_def)

text \<open>
  C2. When the caller supplies no \<open>webdriver_options\<close>, the registered set is not
  always the four default flags: the constructor appends the environment's flags to the
  default list as it does to a supplied one, so for a superuser process on Linux the
  registered set also holds \<open>--no-sandbox\<close> and \<open>--remote-debugging-port=9222\<close>.
\<close>

theorem default_set_counterexample:
  "detect_environment
     \<lparr>sys_modules = {}, os_environ = Map.empty, sys_platform = ''linux'',
      os_geteuid = Some 0, set_order = remdups, binary_path = ''chromedriver'',
      Chrome = (\<lambda>b opts. Inr (0::nat))\<rparr>
     = Inr \<lparr>IN_COLAB = False, IN_AZUREML = False, IN_WINDOWS = False, IS_ROOT = True\<rparr>
   \<and> ''--no-sandbox'' \<in> set (arguments (snd (launch_options
         \<lparr>IN_COLAB = False, IN_AZUREML = False, IN_WINDOWS = False, IS_ROOT = True\<rparr>
         remdups [] None)))
   \<and> set (arguments (snd (launch_options
         \<lparr>IN_COLAB = False, IN_AZUREML = False, IN_WINDOWS = False, IS_ROOT = True\<rparr>
         remdups [] None)))
       \<noteq> {''--headless'', ''--disable-gpu'', ''--disable-dev-shm-usage'', ''--single-process''}"
proof -
  let ?s = "\<lparr>IN_COLAB = False, IN_AZUREML = False, IN_WINDOWS = False, IS_ROOT = True\<rparr>"
  let ?registered = "set (arguments (snd (launch_options ?s remdups [] None)))"
  have m: "''--no-sandbox'' \<in> ?registered"
    by (simp add: launch_options_def extend_webdriver_options_def new_list_def
        list_append_def default_webdriver_options_def register_options_arguments)
  have n: "''--no-sandbox'' \<notin>
      {''--headless'', ''--disable-gpu'', ''--disable-dev-shm-usage'', ''--single-process''}"
    by simp
  from m n have "?registered
      \<noteq> {''--headless'', ''--disable-gpu'', ''--disable-dev-shm-usage'', ''--single-process''}"
    by metis
  with m show ?thesis
    by (simp add: detect_environment_def)
qed

text \<open>
  C2, amended. When the caller supplies no \<open>webdriver_options\<close> and none of the
  superuser, Windows and notebook signals is true, the registered arguments are exactly
  the four default flags, each once. The managed-image signal may have either value: the
  flag it adds is one of the four.
\<close>

theorem default_set_when_unprivileged:
  assumes "python_set order"
    and "\<not> IS_ROOT s" and "\<not> IN_WINDOWS s" and "\<not> IN_COLAB s"
  shows "set (arguments (snd (launch_options s order h None)))
           = {''--headless'', ''--disable-gpu'', ''--disable-dev-shm-usage'', ''--single-process''}
       \<and> distinct (arguments (snd (launch_options s order h None)))
       \<and> length (arguments (snd (launch_options s order h None))) = 4"
proof -
  let ?args = "arguments (snd (launch_options s order h None))"
  have v: "valid_ref h None"
    by (simp add: valid_ref_def)
  have s: "set ?args
      = {''--headless'', ''--disable-gpu'', ''--disable-dev-shm-usage'', ''--single-process''}"
    using launch_options_set [OF assms(1) v, of s] assms(2-4)
    by (auto simp add: base_options_def default_webdriver_options_def appended_flags_def)
  have d: "distinct ?args"
    using assms(1)
    by (simp add: launch_options_def register_options_arguments python_set_def split: prod.splits)
  have "card (set ?args) = 4"
    unfolding s by simp
  with d have "length ?args = 4"
    by (simp add: distinct_card)
  with s d show ?thesis
    by simp
qed

theorem default_set_when_unprivileged_witness:
  "python_set remdups
   \<and> \<not> IS_ROOT \<lparr>IN_COLAB = False, IN_AZUREML = True, IN_WINDOWS = False, IS_ROOT = False\<rparr>
   \<and> set (arguments (snd (launch_options
        \<lparr>IN_COLAB = False, IN_AZUREML = True, IN_WINDOWS = False, IS_ROOT = False\<rparr>
        remdups [] None)))
       = {''--headless'', ''--disable-gpu'', ''--disable-dev-shm-usage'', ''--single-process''}
   \<and> length (arguments (snd (launch_options
        \<lparr>IN_COLAB = False, IN_AZUREML = True, IN_WINDOWS = False, IS_ROOT = False\<rparr>
        remdups [] None))) = 4"
  using default_set_when_unprivileged [of remdups
      "\<lparr>IN_COLAB = False, IN_AZUREML = True, IN_WINDOWS = False, IS_ROOT = False\<rparr>" "[]"]
  by (simp add: python_set_remdups)

text \<open>
  C3. For every input list (or none), when the superuser signal is true and the Windows
  signal is false, the registered arguments contain \<open>--no-sandbox\<close> and
  \<open>--remote-debugging-port=9222\<close>.
\<close>

theorem root_gets_sandbox_and_debug_port:
  assumes "python_set order" and "valid_ref h webdriver_options"
    and "IS_ROOT s" and "\<not> IN_WINDOWS s"
  shows "''--no-sandbox'' \<in> set (arguments (snd (launch_options s order h webdriver_options)))
       \<and> ''--remote-debugging-port=9222''
           \<in> set (arguments (snd (launch_options s order h webdriver_options)))"
  using launch_options_set [OF assms(1,2), of s] assms(3)
  by (simp add: appended_flags_def)

theorem root_gets_sandbox_and_debug_port_witness:
  "python_set remdups \<and> valid_ref [[''--disable-gpu'']] (Some 0)
   \<and> IS_ROOT \<lparr>IN_COLAB = False, IN_AZUREML = False, IN_WINDOWS = False, IS_ROOT = True\<rparr>
   \<and> \<not> IN_WINDOWS \<lparr>IN_COLAB = False, IN_AZUREML = False, IN_WINDOWS = False, IS_ROOT = True\<rparr>
   \<and> ''--no-sandbox'' \<in> set (arguments (snd (launch_options
        \<lparr>IN_COLAB = False, IN_AZUREML = False, IN_WINDOWS = False, IS_ROOT = True\<rparr>
        remdups [[''--disable-gpu'']] (Some 0))))
   \<and> ''--remote-debugging-port=9222'' \<in> set (arguments (snd (launch_options
        \<lparr>IN_COLAB = False, IN_AZUREML = False, IN_WINDOWS = False, IS_ROOT = True\<rparr>
        remdups [[''--disable-gpu'']] (Some 0))))"
  using root_gets_sandbox_and_debug_port [of remdups "[[''--disable-gpu'']]" "Some 0"
      "\<lparr>IN_COLAB = False, IN_AZUREML = False, IN_WINDOWS = False, IS_ROOT = True\<rparr>"]
  by (simp add: python_set_remdups valid_ref_def)

text \<open>
  C4. For every input list that does not itself contain \<open>--remote-debugging-port=9222\<close>
  (and when none is supplied), if the notebook signal is true and the superuser and
  Windows signals are false, the registered arguments contain \<open>--no-sandbox\<close> and
  \<open>--disable-dev-shm-usage\<close> and do not contain \<open>--remote-debugging-port=9222\<close>.
\<close>

theorem colab_gets_sandbox_without_debug_port:
  assumes "python_set order" and "valid_ref h webdriver_options"
    and "case webdriver_options of
           None \<Rightarrow> True
         | Some r \<Rightarrow> ''--remote-debugging-port=9222'' \<notin> set (h ! r)"
    and "IN_COLAB s" and "\<not> IS_ROOT s" and "\<not> IN_WINDOWS s"
  shows "''--no-sandbox'' \<in> set (arguments (snd (launch_options s order h webdriver_options)))
       \<and> ''--disable-dev-shm-usage''
           \<in> set (arguments (snd (launch_options s order h webdriver_options)))
       \<and> ''--remote-debugging-port=9222''
           \<notin> set (arguments (snd (launch_options s order h webdriver_options)))"
proof -
  from assms(3) have "''--remote-debugging-port=9222'' \<notin> set (base_options h webdriver_options)"
    by (cases webdriver_options) (simp_all add: base_options_def default_webdriver_options_def)
  with launch_options_set [OF assms(1,2), of s] assms(4-6) show ?thesis
    by (simp add: appended_flags_def)
qed

theorem colab_gets_sandbox_without_debug_port_witness:
  "python_set remdups \<and> valid_ref [[''--disable-gpu'']] (Some 0)
   \<and> ''--remote-debugging-port=9222'' \<notin> set ([[''--disable-gpu'']] ! 0)
   \<and> IN_COLAB \<lparr>IN_COLAB = True, IN_AZUREML = False, IN_WINDOWS = False, IS_ROOT = False\<rparr>
   \<and> ''--no-sandbox'' \<in> set (arguments (snd (launch_options
        \<lparr>IN_COLAB = True, IN_AZUREML = False, IN_WINDOWS = False, IS_ROOT = False\<rparr>
        remdups [[''--disable-gpu'']] (Some 0))))
   \<and> ''--disable-dev-shm-usage'' \<in> set (arguments (snd (launch_options
        \<lparr>IN_COLAB = True, IN_AZUREML = False, IN_WINDOWS = False, IS_ROOT = False\<rparr>
        remdups [[''--disable-gpu'']] (Some 0))))
   \<and> ''--remote-debugging-port=9222'' \<notin> set (arguments (snd (launch_options
        \<lparr>IN_COLAB = True, IN_AZUREML = False, IN_WINDOWS = False, IS_ROOT = False\<rparr>
        remdups [[''--disable-gpu'']] (Some 0))))"
  using colab_gets_sandbox_without_debug_port [of remdups "[[''--disable-gpu'']]" "Some 0"
      "\<lparr>IN_COLAB = True, IN_AZUREML = False, IN_WINDOWS = False, IS_ROOT = False\<rparr>"]
  by (simp add: python_set_remdups valid_ref_def)

text \<open>
  C5. On a platform whose identifier is \<open>win32\<close> or \<open>cygwin\<close> the detection returns
  with the Windows signal true and the superuser signal false, and \<open>os.geteuid\<close> is not
  evaluated: neither the signals nor the whole construction depend on \<open>os_geteuid\<close>, not
  even on whether the function exists (\<open>g = None\<close>, where evaluating it would raise).
  Conversely the Windows signal is true on these two platforms only, and whenever it is
  true the superuser signal is false.
\<close>

theorem windows_never_calls_geteuid:
  "(sys_platform p = ''win32'' \<or> sys_platform p = ''cygwin'' \<longrightarrow>
      detect_environment p
        = Inr \<lparr>IN_COLAB = (''google.colab'' \<in> sys_modules p),
               IN_AZUREML = (os_environ p ''AZUREML_ENVIRONMENT_IMAGE'' = Some ''True''),
               IN_WINDOWS = True, IS_ROOT = False\<rparr>
      \<and> detect_environment (p\<lparr>os_geteuid := g\<rparr>) = detect_environment p
      \<and> init (p\<lparr>os_geteuid := g\<rparr>) h c = init p h c)
   \<and> (detect_environment p = Inr s \<and> IN_WINDOWS s \<longrightarrow>
        (sys_platform p = ''win32'' \<or> sys_platform p = ''cygwin'') \<and> \<not> IS_ROOT s)"
proof -
  have a: "detect_environment p
        = Inr \<lparr>IN_COLAB = (''google.colab'' \<in> sys_modules p),
               IN_AZUREML = (os_environ p ''AZUREML_ENVIRONMENT_IMAGE'' = Some ''True''),
               IN_WINDOWS = True, IS_ROOT = False\<rparr>
      \<and> detect_environment (p\<lparr>os_geteuid := g\<rparr>) = detect_environment p"
    if "sys_platform p = ''win32'' \<or> sys_platform p = ''cygwin''"
    using that by (auto simp add: detect_environment_def Let_def)
  have b: "init (p\<lparr>os_geteuid := g\<rparr>) h c = init p h c"
    if "sys_platform p = ''win32'' \<or> sys_platform p = ''cygwin''"
    using a [OF that] by (simp add: init_def init_self_def)
  have c: "(sys_platform p = ''win32'' \<or> sys_platform p = ''cygwin'') \<and> \<not> IS_ROOT s"
    if "detect_environment p = Inr s" and "IN_WINDOWS s"
    using that by (auto simp add: detect_environment_def Let_def split: if_splits option.splits)
  from a b c show ?thesis
    by blast
qed

theorem windows_never_calls_geteuid_witness:
  "sys_platform
     \<lparr>sys_modules = {}, os_environ = Map.empty, sys_platform = ''win32'',
      os_geteuid = Some 0, set_order = remdups, binary_path = ''chromedriver'',
      Chrome = (\<lambda>b opts. Inr (0::nat))\<rparr> = ''win32''
   \<and> detect_environment
     \<lparr>sys_modules = {}, os_environ = Map.empty, sys_platform = ''win32'',
      os_geteuid = Some 0, set_order = remdups, binary_path = ''chromedriver'',
      Chrome = (\<lambda>b opts. Inr (0::nat))\<rparr>
     = Inr \<lparr>IN_COLAB = False, IN_AZUREML = False, IN_WINDOWS = True, IS_ROOT = False\<rparr>
   \<and> detect_environment
     \<lparr>sys_modules = {}, os_environ = Map.empty, sys_platform = ''win32'',
      os_geteuid = None, set_order = remdups, binary_path = ''chromedriver'',
      Chrome = (\<lambda>b opts. Inr (0::nat))\<rparr>
     = Inr \<lparr>IN_COLAB = False, IN_AZUREML = False, IN_WINDOWS = True, IS_ROOT = False\<rparr>"
proof -
  let ?p = "\<lparr>sys_modules = {}, os_environ = Map.empty, sys_platform = ''win32'',
      os_geteuid = Some 0, set_order = remdups, binary_path = ''chromedriver'',
      Chrome = (\<lambda>b opts. Inr (0::nat))\<rparr>"
  have w: "sys_platform ?p = ''win32''"
    by simp
  from windows_never_calls_geteuid [of ?p None] w show ?thesis
    by simp
qed







text \<open>
  C8. The registered arguments hold no flag twice. They are what registering the list
  built by the rules of steps 2 to 6, run in the order of the specification, gives; and
  running the same rules in any other order (any list with the same rules, each as
  often) registers the same set of flags.
\<close>

theorem registered_distinct_and_order_free:
  assumes "python_set order" and "valid_ref h webdriver_options"
    and "mset rules = mset (spec_append_rules s (webdriver_options = None))"
  shows "distinct (arguments (snd (launch_options s order h webdriver_options)))
       \<and> snd (launch_options s order h webdriver_options)
           = register_options order
               (apply_rules (spec_append_rules s (webdriver_options = None))
                 (supplied_options h webdriver_options))
       \<and> set (arguments (register_options order
               (apply_rules rules (supplied_options h webdriver_options))))
           = set (arguments (snd (launch_options s order h webdriver_options)))"
proof -
  let ?src = "snd (launch_options s order h webdriver_options)"
  let ?spec = "spec_append_rules s (webdriver_options = None)"
  have a: "?src = register_options order (apply_rules ?spec (supplied_options h webdriver_options))"
    using launch_options_arguments [OF assms(2), of s order] by (simp add: spec_rules_refine)
  have d: "distinct (arguments ?src)"
    using assms(1) unfolding a by (simp add: register_options_arguments python_set_def)
  from assms(3) have "set rules = set ?spec"
    by (rule mset_eq_setD)
  then have "set (apply_rules rules (supplied_options h webdriver_options))
      = set (apply_rules ?spec (supplied_options h webdriver_options))"
    by (simp add: apply_rules_set)
  with assms(1) have "set (arguments (register_options order
               (apply_rules rules (supplied_options h webdriver_options))))
           = set (arguments ?src)"
    unfolding a by (simp add: register_options_arguments python_set_def)
  with a d show ?thesis
    by simp
qed

theorem registered_distinct_and_order_free_witness:
  "python_set remdups \<and> valid_ref [[''--headless'', ''--no-sandbox'']] (Some 0)
   \<and> mset (rev (spec_append_rules
         \<lparr>IN_COLAB = True, IN_AZUREML = False, IN_WINDOWS = False, IS_ROOT = True\<rparr>
         (Some (0::nat) = None)))
     = mset (spec_append_rules
         \<lparr>IN_COLAB = True, IN_AZUREML = False, IN_WINDOWS = False, IS_ROOT = True\<rparr>
         (Some (0::nat) = None))
   \<and> distinct (arguments (snd (launch_options
         \<lparr>IN_COLAB = True, IN_AZUREML = False, IN_WINDOWS = False, IS_ROOT = True\<rparr>
         remdups [[''--headless'', ''--no-sandbox'']] (Some 0))))
   \<and> set (arguments (register_options remdups
         (apply_rules
           (rev (spec_append_rules
             \<lparr>IN_COLAB = True, IN_AZUREML = False, IN_WINDOWS = False, IS_ROOT = True\<rparr>
             (Some (0::nat) = None)))
           (supplied_options [[''--headless'', ''--no-sandbox'']] (Some 0)))))
       = set (arguments (snd (launch_options
         \<lparr>IN_COLAB = True, IN_AZUREML = False, IN_WINDOWS = False, IS_ROOT = True\<rparr>
         remdups [[''--headless'', ''--no-sandbox'']] (Some 0))))"
proof -
  let ?s = "\<lparr>IN_COLAB = True, IN_AZUREML = False, IN_WINDOWS = False, IS_ROOT = True\<rparr>"
  let ?h = "[[''--headless'', ''--no-sandbox'']]"
  have v: "valid_ref ?h (Some 0)"
    by (simp add: valid_ref_def)
  have m: "mset (rev (spec_append_rules ?s (Some (0::nat) = None)))
      = mset (spec_append_rules ?s (Some (0::nat) = None))"
    by (rule mset_rev)
  from registered_distinct_and_order_free [OF python_set_remdups v m] v m python_set_remdups
  show ?thesis
    by blast
qed

text \<open>
  C9. The managed-image signal is true exactly when the environment variable
  \<open>AZUREML_ENVIRONMENT_IMAGE\<close> is set to the string \<open>True\<close>; with the values \<open>true\<close>
  and \<open>1\<close>, and with the variable unset, it is false.
\<close>

theorem azureml_signal_exact:
  assumes "detect_environment p = Inr s"
  shows "(IN_AZUREML s \<longleftrightarrow> os_environ p ''AZUREML_ENVIRONMENT_IMAGE'' = Some ''True'')
       \<and> (os_environ p ''AZUREML_ENVIRONMENT_IMAGE'' = Some ''true'' \<longrightarrow> \<not> IN_AZUREML s)
       \<and> (os_environ p ''AZUREML_ENVIRONMENT_IMAGE'' = Some ''1'' \<longrightarrow> \<not> IN_AZUREML s)
       \<and> (os_environ p ''AZUREML_ENVIRONMENT_IMAGE'' = None \<longrightarrow> \<not> IN_AZUREML s)"
  using assms
  by (auto simp add: detect_environment_def Let_def split: if_splits option.splits)

theorem azureml_signal_exact_witness:
  "detect_environment
     \<lparr>sys_modules = {}, os_environ = [''AZUREML_ENVIRONMENT_IMAGE'' \<mapsto> ''true''],
      sys_platform = ''linux'', os_geteuid = Some 1000, set_order = remdups,
      binary_path = ''chromedriver'', Chrome = (\<lambda>b opts. Inr (0::nat))\<rparr>
     = Inr \<lparr>IN_COLAB = False, IN_AZUREML = False, IN_WINDOWS = False, IS_ROOT = False\<rparr>
   \<and> \<not> IN_AZUREML \<lparr>IN_COLAB = False, IN_AZUREML = False, IN_WINDOWS = False, IS_ROOT = False\<rparr>
   \<and> detect_environment
     \<lparr>sys_modules = {}, os_environ = [''AZUREML_ENVIRONMENT_IMAGE'' \<mapsto> ''True''],
      sys_platform = ''linux'', os_geteuid = Some 1000, set_order = remdups,
      binary_path = ''chromedriver'', Chrome = (\<lambda>b opts. Inr (0::nat))\<rparr>
     = Inr \<lparr>IN_COLAB = False, IN_AZUREML = True, IN_WINDOWS = False, IS_ROOT = False\<rparr>
   \<and> IN_AZUREML \<lparr>IN_COLAB = False, IN_AZUREML = True, IN_WINDOWS = False, IS_ROOT = False\<rparr>"
proof -
  let ?p = "\<lparr>sys_modules = {}, os_environ = [''AZUREML_ENVIRONMENT_IMAGE'' \<mapsto> ''true''],
      sys_platform = ''linux'', os_geteuid = Some 1000, set_order = remdups,
      binary_path = ''chromedriver'', Chrome = (\<lambda>b opts. Inr (0::nat))\<rparr>"
  let ?s = "\<lparr>IN_COLAB = False, IN_AZUREML = False, IN_WINDOWS = False, IS_ROOT = False\<rparr>"
  let ?q = "\<lparr>sys_modules = {}, os_environ = [''AZUREML_ENVIRONMENT_IMAGE'' \<mapsto> ''True''],
      sys_platform = ''linux'', os_geteuid = Some 1000, set_order = remdups,
      binary_path = ''chromedriver'', Chrome = (\<lambda>b opts. Inr (0::nat))\<rparr>"
  let ?t = "\<lparr>IN_COLAB = False, IN_AZUREML = True, IN_WINDOWS = False, IS_ROOT = False\<rparr>"
  have d: "detect_environment ?p = Inr ?s"
    by (simp add: detect_environment_def)
  have e: "detect_environment ?q = Inr ?t"
    by (simp add: detect_environment_def)
  from azureml_signal_exact [OF d] azureml_signal_exact [OF e] d e show ?thesis
    by simp
qed

text \<open>
  C10. When the caller passes a list, the constructor appends to that very object: after
  the construction (whether or not the browser then started) the caller's cell of the
  store holds its old contents followed by \<open>--headless\<close> and the flags of the
  environment, no new list has been allocated, and every other list is as it was.
\<close>

theorem caller_list_mutated_in_place:
  assumes "detect_environment p = Inr s"
    and "arg_webdriver_options c = Passed (Some r)" and "r < length h"
  shows "fst (init p h c) ! r
           = h ! r @ [''--headless'']
             @ (if IS_ROOT s \<or> IN_WINDOWS s \<or> IN_COLAB s then [''--no-sandbox''] else [])
             @ (if IS_ROOT s \<or> IN_WINDOWS s then [''--remote-debugging-port=9222''] else [])
             @ (if IN_COLAB s \<or> IN_AZUREML s then [''--disable-dev-shm-usage''] else [])
       \<and> length (fst (init p h c)) = length h
       \<and> (\<forall>q. q \<noteq> r \<longrightarrow> fst (init p h c) ! q = h ! q)"
proof -
  obtain h' r' where e: "extend_webdriver_options s h (Some r) = (h', r')"
    by (cases "extend_webdriver_options s h (Some r)")
  have "fst (init p h c) = h'"
    using assms(1,2) e
    by (simp add: init_def init_self_def launch_options_def split: sum.splits)
  with extend_supplied [OF assms(3) e] show ?thesis
    by (simp add: appended_flags_def)
qed

theorem caller_list_mutated_in_place_witness:
  "detect_environment
     \<lparr>sys_modules = {''google.colab''}, os_environ = Map.empty, sys_platform = ''linux'',
      os_geteuid = Some 1000, set_order = remdups, binary_path = ''chromedriver'',
      Chrome = (\<lambda>b opts. Inl (WebDriverException ''unknown error'') :: error + nat)\<rparr>
     = Inr \<lparr>IN_COLAB = True, IN_AZUREML = False, IN_WINDOWS = False, IS_ROOT = False\<rparr>
   \<and> (1::nat) < length [[''a''], [''--disable-gpu'']]
   \<and> fst (init
        \<lparr>sys_modules = {''google.colab''}, os_environ = Map.empty, sys_platform = ''linux'',
         os_geteuid = Some 1000, set_order = remdups, binary_path = ''chromedriver'',
         Chrome = (\<lambda>b opts. Inl (WebDriverException ''unknown error'') :: error + nat)\<rparr>
        [[''a''], [''--disable-gpu'']]
        \<lparr>arg_urls = Omitted, arg_crawler_depth = Omitted, arg_filter_urls = Omitted,
         arg_id_hash_keys = Omitted, arg_extract_hidden_text = Omitted,
         arg_loading_wait_time = Omitted, arg_output_dir = Omitted,
         arg_overwrite_existing_files = Omitted, arg_file_path_meta_field_name = Omitted,
         arg_crawler_naming_function = Omitted,
         arg_webdriver_options = Passed (Some 1)\<rparr>) ! 1
     = [''--disable-gpu'', ''--headless'', ''--no-sandbox'', ''--disable-dev-shm-usage'']"
proof -
  let ?p = "\<lparr>sys_modules = {''google.colab''}, os_environ = Map.empty, sys_platform = ''linux'',
      os_geteuid = Some 1000, set_order = remdups, binary_path = ''chromedriver'',
      Chrome = (\<lambda>b opts. Inl (WebDriverException ''unknown error'') :: error + nat)\<rparr>"
  let ?s = "\<lparr>IN_COLAB = True, IN_AZUREML = False, IN_WINDOWS = False, IS_ROOT = False\<rparr>"
  let ?c = "\<lparr>arg_urls = Omitted, arg_crawler_depth = Omitted, arg_filter_urls = Omitted,
         arg_id_hash_keys = Omitted, arg_extract_hidden_text = Omitted,
         arg_loading_wait_time = Omitted, arg_output_dir = Omitted,
         arg_overwrite_existing_files = Omitted, arg_file_path_meta_field_name = Omitted,
         arg_crawler_naming_function = Omitted,
         arg_webdriver_options = Passed (Some 1)\<rparr>"
  have d: "detect_environment ?p = Inr ?s"
    by (simp add: detect_environment_def)
  have a: "arg_webdriver_options ?c = Passed (Some 1)"
    by simp
  have l: "(1::nat) < length [[''a''], [''--disable-gpu'']]"
    by simp
  from caller_list_mutated_in_place [OF d a l] d show ?thesis
    by simp
qed

end
